theory Spec2Isabelle
  imports Complex_Main
begin

section \<open>The JavaScript runtime underneath the application\<close>

text \<open>
  The application is TypeScript on React Native. What the runtime and the libraries
  provide (\<^verbatim>\<open>JSON\<close>, \<^verbatim>\<open>AsyncStorage\<close>, \<^verbatim>\<open>parseFloat\<close>, the string methods, the backend
  client) is not code of the repository. A thrown exception or a rejected promise is a
  value \<open>Inl e\<close> of a sum type, a normal return is \<open>Inr x\<close>.
\<close>

datatype exn = StorageFailure | JSONFailure | BackendFailure string

text \<open>
  \<^verbatim>\<open>JSON.stringify\<close> and \<^verbatim>\<open>JSON.parse\<close> at the type \<open>'v\<close> of the cached values.
  \<open>stringify\<close> gives \<open>Inl\<close> where the call throws or yields no text; \<open>parse\<close> gives
  \<open>Inl\<close> on a syntax error, and \<open>Inr None\<close> where the parsed value is \<^verbatim>\<open>null\<close>
  (a value of the TypeScript type \<^verbatim>\<open>T | null\<close> is a \<open>'v option\<close>).
\<close>

record 'v JSON =
  stringify :: "'v \<Rightarrow> exn + string"
  parse :: "string \<Rightarrow> exn + 'v option"

text \<open>
  A value is JSON-serializable when \<open>stringify\<close> returns a text for it, which is then
  never the empty string and always parses.
\<close>

definition JSON_serializable :: "'v JSON \<Rightarrow> 'v \<Rightarrow> bool" where
  "JSON_serializable J v =
     (case stringify J v of
        Inl e \<Rightarrow> False
      | Inr s \<Rightarrow> s \<noteq> [] \<and> (case parse J s of Inl e \<Rightarrow> False | Inr r \<Rightarrow> True))"

text \<open>\<^verbatim>\<open>JSON.parse(JSON.stringify(v))\<close>, with \<open>None\<close> for \<^verbatim>\<open>null\<close>.\<close>

definition JSON_roundtrip :: "'v JSON \<Rightarrow> 'v \<Rightarrow> 'v option" where
  "JSON_roundtrip J v =
     (case stringify J v of
        Inl e \<Rightarrow> None
      | Inr s \<Rightarrow> (case parse J s of Inl e \<Rightarrow> None | Inr r \<Rightarrow> r))"

text \<open>
  A concrete \<open>JSON\<close> given by a finite table of texts and the values they denote; it
  stands for the runtime's \<open>JSON\<close> on the values listed, and throws elsewhere.
\<close>

fun text_of :: "(string \<times> 'v option) list \<Rightarrow> 'v \<Rightarrow> exn + string" where
  "text_of [] v = Inl JSONFailure"
| "text_of ((s, r) # tab) v = (if r = Some v then Inr s else text_of tab v)"

definition JSON_of_table :: "(string \<times> 'v option) list \<Rightarrow> 'v JSON" where
  "JSON_of_table tab =
     \<lparr> stringify = text_of tab,
       parse = (\<lambda>s. case map_of tab s of None \<Rightarrow> Inl JSONFailure | Some r \<Rightarrow> Inr r) \<rparr>"

subsection \<open>AsyncStorage\<close>

text \<open>
  The device's key/value store holds strings under string keys. Every call is
  asynchronous and may reject; whether it does is the environment's choice, passed as
  the flag \<open>rejects\<close>. A rejected call leaves the store as it was.
\<close>

type_synonym AsyncStorage = "string \<rightharpoonup> string"

definition setItem :: "bool \<Rightarrow> string \<Rightarrow> string \<Rightarrow> AsyncStorage \<Rightarrow> exn + AsyncStorage" where
  "setItem rejects key s st = (if rejects then Inl StorageFailure else Inr (st(key \<mapsto> s)))"

definition getItem :: "bool \<Rightarrow> string \<Rightarrow> AsyncStorage \<Rightarrow> exn + string option" where
  "getItem rejects key st = (if rejects then Inl StorageFailure else Inr (st key))"

definition removeItem :: "bool \<Rightarrow> string \<Rightarrow> AsyncStorage \<Rightarrow> exn + AsyncStorage" where
  "removeItem rejects key st = (if rejects then Inl StorageFailure else Inr (st(key := None)))"

definition clear :: "bool \<Rightarrow> AsyncStorage \<Rightarrow> exn + AsyncStorage" where
  "clear rejects st = (if rejects then Inl StorageFailure else Inr Map.empty)"

section \<open>The cache helper (lib/cache.ts, lines 1-37)\<close>

text \<open>
  Each method wraps its body in \<^verbatim>\<open>try { ... } catch (error) { console.error(...) }\<close>.
  The catch branch is the \<open>Inl\<close> case below; the console is not part of the state.
  \<open>cache_get\<close> returns \<open>None\<close> for \<^verbatim>\<open>null\<close>; the test \<^verbatim>\<open>value ? ... : null\<close> is false
  for a missing item and for the empty string.
\<close>

definition cache_set :: "'v JSON \<Rightarrow> bool \<Rightarrow> string \<Rightarrow> 'v \<Rightarrow> AsyncStorage \<Rightarrow> AsyncStorage" where
  "cache_set J rejects key v st =
     (case stringify J v of
        Inl e \<Rightarrow> st
      | Inr s \<Rightarrow> (case setItem rejects key s st of Inl e \<Rightarrow> st | Inr st' \<Rightarrow> st'))"

definition cache_get :: "'v JSON \<Rightarrow> bool \<Rightarrow> string \<Rightarrow> AsyncStorage \<Rightarrow> 'v option" where
  "cache_get J rejects key st =
     (case getItem rejects key st of
        Inl e \<Rightarrow> None
      | Inr None \<Rightarrow> None
      | Inr (Some s) \<Rightarrow>
          (if s \<noteq> [] then (case parse J s of Inl e \<Rightarrow> None | Inr r \<Rightarrow> r) else None))"

definition cache_remove :: "bool \<Rightarrow> string \<Rightarrow> AsyncStorage \<Rightarrow> AsyncStorage" where
  "cache_remove rejects key st =
     (case removeItem rejects key st of Inl e \<Rightarrow> st | Inr st' \<Rightarrow> st')"

definition cache_clear :: "bool \<Rightarrow> AsyncStorage \<Rightarrow> AsyncStorage" where
  "cache_clear rejects st = (case clear rejects st of Inl e \<Rightarrow> st | Inr st' \<Rightarrow> st')"

text \<open>
  A sequence of calls on the cache, each with the environment's choice for its storage
  call. \<open>touches key c\<close> holds for the calls that write, remove or clear \<open>key\<close>.
\<close>

datatype 'v cache_op = Set string 'v | Get string | Remove string | Clear

fun cache_call :: "'v JSON \<Rightarrow> bool \<times> 'v cache_op \<Rightarrow> AsyncStorage \<Rightarrow> AsyncStorage" where
  "cache_call J (rejects, Set key v) st = cache_set J rejects key v st"
| "cache_call J (rejects, Get key) st = st"
| "cache_call J (rejects, Remove key) st = cache_remove rejects key st"
| "cache_call J (rejects, Clear) st = cache_clear rejects st"

fun cache_calls :: "'v JSON \<Rightarrow> (bool \<times> 'v cache_op) list \<Rightarrow> AsyncStorage \<Rightarrow> AsyncStorage" where
  "cache_calls J [] st = st"
| "cache_calls J (c # cs) st = cache_calls J cs (cache_call J c st)"

fun touches :: "string \<Rightarrow> 'v cache_op \<Rightarrow> bool" where
  "touches key (Set k v) = (k = key)"
| "touches key (Get k) = False"
| "touches key (Remove k) = (k = key)"
| "touches key Clear = True"

fun sets :: "string \<Rightarrow> 'v cache_op \<Rightarrow> bool" where
  "sets key (Set k v) = (k = key)"
| "sets key c = False"


subsection \<open>Numbers and strings\<close>

text \<open>
  A JavaScript \<^verbatim>\<open>number\<close> is a double: not-a-number, an infinity, or a finite value,
  which is a rational. Only comparisons are made on numbers here, and they are exact;
  every comparison with \<open>NaN\<close> is false.
\<close>

datatype number = NaN | NegInfinity | Finite rat | PosInfinity

fun lt :: "number \<Rightarrow> number \<Rightarrow> bool" where
  "lt NaN y = False"
| "lt x NaN = False"
| "lt x NegInfinity = False"
| "lt NegInfinity y = True"
| "lt PosInfinity y = False"
| "lt (Finite a) (Finite b) = (a < b)"
| "lt (Finite a) PosInfinity = True"

fun le :: "number \<Rightarrow> number \<Rightarrow> bool" where
  "le NaN y = False"
| "le x NaN = False"
| "le NegInfinity y = True"
| "le x NegInfinity = False"
| "le x PosInfinity = True"
| "le PosInfinity y = False"
| "le (Finite a) (Finite b) = (a \<le> b)"

definition gt :: "number \<Rightarrow> number \<Rightarrow> bool" where
  "gt x y = lt y x"

definition isNaN :: "number \<Rightarrow> bool" where
  "isNaN x = (x = NaN)"

text \<open>
  The built-ins the create-alert form calls: \<^verbatim>\<open>parseFloat\<close>, \<^verbatim>\<open>String.prototype.trim\<close>
  and \<^verbatim>\<open>String.prototype.toUpperCase\<close>. They are parameters of the model.
\<close>

record runtime =
  parseFloat :: "string \<Rightarrow> number"
  trim :: "string \<Rightarrow> string"
  toUpperCase :: "string \<Rightarrow> string"

text \<open>
  An instance on ASCII text, for evaluation: \<open>trim\<close> strips blanks, tabs and line
  breaks at both ends, \<open>toUpperCase\<close> maps \<open>a\<close>..\<open>z\<close>, and \<open>parseFloat\<close> is read off a
  table of texts.
\<close>

definition is_space :: "char \<Rightarrow> bool" where
  "is_space c = (c \<in> set [CHR '' '', CHR 0x09, CHR 0x0A, CHR 0x0B, CHR 0x0C, CHR 0x0D])"

definition ascii_trim :: "string \<Rightarrow> string" where
  "ascii_trim s = rev (dropWhile is_space (rev (dropWhile is_space s)))"

definition ascii_upper :: "char \<Rightarrow> char" where
  "ascii_upper c =
     (case map_of (zip ''abcdefghijklmnopqrstuvwxyz'' ''ABCDEFGHIJKLMNOPQRSTUVWXYZ'') c of
        None \<Rightarrow> c
      | Some u \<Rightarrow> u)"

definition ascii_runtime :: "(string \<times> number) list \<Rightarrow> runtime" where
  "ascii_runtime tab =
     \<lparr> parseFloat = (\<lambda>s. case map_of tab s of None \<Rightarrow> NaN | Some x \<Rightarrow> x),
       trim = ascii_trim,
       toUpperCase = map ascii_upper \<rparr>"

text \<open>
  \<^verbatim>\<open>s.replace(pat, rep)\<close> for a string pattern: the first occurrence of \<open>pat\<close> is
  replaced (the replacement used by the code is the empty string, which has no
  \<^verbatim>\<open>$\<close> patterns).
\<close>

fun replace :: "string \<Rightarrow> string \<Rightarrow> string \<Rightarrow> string" where
  "replace pat rep [] = (if pat = [] then rep else [])"
| "replace pat rep (c # cs) =
     (if take (length pat) (c # cs) = pat then rep @ drop (length pat) (c # cs)
      else c # replace pat rep cs)"

section \<open>The data model\<close>

text \<open>
  The records mirror rows of the remote tables. TypeScript's string-literal unions are
  erased at run time, so \<open>condition_type\<close> is a string; its declared values are those of
  the type \<^verbatim>\<open>ConditionType\<close>. The records follow the types module that the alerts
  screen and the create-alert form work with (the last part of the file that holds the
  audit-trail screen): its \<^verbatim>\<open>Alert\<close> has the fields the screen reads and the form
  submits. The repository also keeps an earlier \<^verbatim>\<open>Alert\<close> in \<^verbatim>\<open>types/index.ts\<close>, without
  those fields and with the four threshold condition types only; \<^verbatim>\<open>Profile\<close> and
  \<^verbatim>\<open>AuditTrailEntry\<close> are the same in both. The field \<^verbatim>\<open>id\<close> is written \<open>id'\<close>, and
  \<^verbatim>\<open>metadata\<close> holds its timeframe.
\<close>

definition ConditionType :: "string set" where
  "ConditionType =
     {''price_above'', ''price_below'', ''price_cross_above'', ''price_cross_below'',
      ''rsi_above'', ''rsi_below'', ''rsi_cross_above'', ''rsi_cross_below''}"

record User =
  id' :: string

record Profile =
  id' :: string
  email :: string
  full_name :: "string option"
  is_admin :: bool
  email_notifications :: bool
  telegram_notifications :: bool
  telegram_chat_id :: "string option"
  push_token :: "string option"
  created_at :: string

record AuditTrailEntry =
  id' :: string
  alert_id :: string
  symbol :: string
  triggered_at :: string
  condition_type :: string
  condition_value :: number
  current_value :: number
  previous_rsi :: "number option"
  current_rsi :: "number option"
  notification_sent :: bool
  notification_method :: "string option"

text \<open>The object literal that the create-alert form inserts.\<close>

record NewAlert =
  user_id :: "string option"
  title :: string
  asset_type :: string
  symbol :: string
  condition_type :: string
  condition_value :: number
  notification_email :: bool
  notification_telegram :: bool
  is_active :: bool
  metadata :: string

record Alert =
  id' :: string
  user_id :: string
  title :: string
  asset_type :: string
  symbol :: string
  condition_type :: string
  condition_value :: number
  notification_email :: bool
  notification_telegram :: bool
  is_active :: bool
  triggered_at :: "string option"
  metadata :: string
  created_at :: string
  updated_at :: string

section \<open>The backend client and the dialogs\<close>

text \<open>
  A request to the backend is recorded as data: \<open>Select table columns eqs order limit\<close>
  for \<^verbatim>\<open>from(table).select(columns).eq(..).order(column, {ascending}).limit(n)\<close>,
  \<open>Update table b ident\<close> for \<^verbatim>\<open>update({is_active: b}).eq('id', ident)\<close>,
  \<open>Delete table ident\<close> and \<open>Insert table row\<close>. What the backend answers is the
  environment's choice: the \<^verbatim>\<open>{ data, error }\<close> object of the client.
\<close>

datatype request =
    Select string string "(string \<times> string option) list" "(string \<times> bool) option" "nat option"
  | Update string bool string
  | Delete string string
  | Insert string NewAlert

datatype 'a response = Response (data: "'a option") (error: "exn option")

text \<open>\<^verbatim>\<open>Alert.alert(title, message, buttons)\<close> of React Native, with the button texts.\<close>

datatype dialog = AlertDialog string string "string list"

text \<open>
  A realtime subscription: channel name, event, schema, table and filter of
  \<^verbatim>\<open>channel(name).on('postgres_changes', {...}, callback).subscribe()\<close>.
\<close>

datatype subscription = Subscription string string string string string

datatype change = INSERT | UPDATE | DELETE


section \<open>Component state\<close>

text \<open>
  The state a component works on: its \<^verbatim>\<open>useState\<close> variables, the store and cache it
  reads, and a log of what it asked of the outside (dialogs shown, backend requests).
  The variables that several components declare under the same name are collected in
  base records.
\<close>

record screen =
  dialogs :: "dialog list"
  requests :: "request list"
  loading :: bool

record list_screen = screen +
  refreshing :: bool

section \<open>The alerts screen\<close>

text \<open>
  The component \<^verbatim>\<open>AlertsScreen\<close> with optimistic updates; in the repository's files
  its text follows the cache helper (lib/cache.ts, lines 118-626).
  \<open>alerts\<close> is the list of the store (\<^verbatim>\<open>useStore\<close>), \<open>storage\<close> the device store under
  the cache helper, \<open>channels\<close> the realtime subscriptions made. While the delete
  confirmation is open, \<open>confirming\<close> holds what the \<^verbatim>\<open>onPress\<close> of its Delete button has
  closed over: the list \<^verbatim>\<open>alerts\<close> and the alert of the call that opened it.
\<close>

record AlertsScreen = list_screen +
  alerts :: "Alert list"
  storage :: AsyncStorage
  modalVisible :: bool
  channels :: "subscription list"
  confirming :: "(Alert list \<times> Alert) option"

text \<open>What the environment answers during one run of \<open>fetchAlerts\<close>.\<close>

record fetch_io =
  getItem_rejects :: bool
  fetched :: "Alert list response"
  setItem_rejects :: bool

definition select_alerts :: "User option \<Rightarrow> request" where
  "select_alerts user =
     Select ''alerts'' ''*'' [(''user_id'', map_option User.id' user)]
       (Some (''created_at'', False)) None"

text \<open>The first step of \<open>fetchAlerts\<close>: "Load from cache first".\<close>

definition load_from_cache ::
  "Alert list JSON \<Rightarrow> fetch_io \<Rightarrow> bool \<Rightarrow> AlertsScreen \<Rightarrow> AlertsScreen" where
  "load_from_cache J io isRefresh w =
     (if \<not> isRefresh then
        (case cache_get J (getItem_rejects io) ''alerts'' (storage w) of
           None \<Rightarrow> w
         | Some cached \<Rightarrow> if length cached > 0 then w\<lparr>alerts := cached\<rparr> else w)
      else w)"

definition fetchAlerts ::
  "Alert list JSON \<Rightarrow> User option \<Rightarrow> fetch_io \<Rightarrow> bool \<Rightarrow> AlertsScreen \<Rightarrow> AlertsScreen" where
  "fetchAlerts J user io isRefresh w =
     (let w1 = load_from_cache J io isRefresh w;
          w2 = w1\<lparr>requests := requests w1 @ [select_alerts user]\<rparr>;
          w3 =
            (case error (fetched io) of
               Some e \<Rightarrow>
                 w2\<lparr>dialogs := dialogs w2 @ [AlertDialog ''Error'' ''Failed to load alerts'' []]\<rparr>
             | None \<Rightarrow>
                 (case data (fetched io) of
                    None \<Rightarrow> w2
                  | Some rows \<Rightarrow>
                      w2\<lparr>alerts := rows,
                         storage := cache_set J (setItem_rejects io) ''alerts'' rows (storage w2)\<rparr>))
      in w3\<lparr>loading := False, refreshing := False\<rparr>)"

definition setupRealtimeSubscription :: "User option \<Rightarrow> AlertsScreen \<Rightarrow> AlertsScreen" where
  "setupRealtimeSubscription user w =
     w\<lparr>channels := channels w @
         [Subscription ''alerts-changes'' ''*'' ''public'' ''alerts''
            (''user_id=eq.'' @ (case user of None \<Rightarrow> ''undefined'' | Some u \<Rightarrow> User.id' u))]\<rparr>"

text \<open>The callback given to the subscription: it ignores the payload.\<close>

definition on_postgres_changes ::
  "Alert list JSON \<Rightarrow> User option \<Rightarrow> fetch_io \<Rightarrow> change \<Rightarrow> AlertsScreen \<Rightarrow> AlertsScreen" where
  "on_postgres_changes J user io payload w = fetchAlerts J user io False w"

text \<open>A run of change events delivered to the callback, each with its environment.\<close>

fun deliver ::
  "Alert list JSON \<Rightarrow> User option \<Rightarrow> (change \<times> fetch_io) list \<Rightarrow> AlertsScreen \<Rightarrow> AlertsScreen" where
  "deliver J user [] w = w"
| "deliver J user ((payload, io) # rest) w =
     deliver J user rest (on_postgres_changes J user io payload w)"

text \<open>
  The effect on \<^verbatim>\<open>[user]\<close>. \<open>fetchAlerts\<close> and \<open>setupRealtimeSubscription\<close> write
  different fields, so the order in which they complete does not matter.
\<close>

definition useEffect_user ::
  "Alert list JSON \<Rightarrow> User option \<Rightarrow> fetch_io \<Rightarrow> AlertsScreen \<Rightarrow> AlertsScreen" where
  "useEffect_user J user io w =
     (case user of
        None \<Rightarrow> w
      | Some u \<Rightarrow> setupRealtimeSubscription user (fetchAlerts J user io False w))"

definition onRefresh ::
  "Alert list JSON \<Rightarrow> User option \<Rightarrow> fetch_io \<Rightarrow> AlertsScreen \<Rightarrow> AlertsScreen" where
  "onRefresh J user io w = fetchAlerts J user io True (w\<lparr>refreshing := True\<rparr>)"

text \<open>
  What the environment answers during \<open>toggleAlertStatus\<close> and the delete handler: the
  storage call of the optimistic write, the \<^verbatim>\<open>error\<close> of the backend's answer, the
  storage call of the reverting write, and (delete only) the run of \<open>fetchAlerts\<close>.
\<close>

record mutate_io =
  optimistic_rejects :: bool
  answered :: "exn option"
  revert_rejects :: bool

record delete_io = mutate_io +
  refetch :: fetch_io

text \<open>
  \<open>toggleAlertStatus\<close> and \<open>deleteAlert\<close> close over \<^verbatim>\<open>alerts\<close>, the store's list at
  the render that created them; it is the argument \<open>alerts0\<close>. \<open>press_toggle\<close> and
  \<open>press_trash\<close> are the buttons of a row of the screen as rendered from the current
  state. \<open>deleteAlert\<close> only opens the confirmation (\<^verbatim>\<open>Alert.alert\<close> does not block); the
  \<^verbatim>\<open>onPress\<close> of its Delete button closes over the same \<^verbatim>\<open>alerts\<close> and runs when the
  user presses Delete, which is \<open>press_Delete\<close>, after whatever has happened to the
  screen in between. The Cancel button has no handler.
\<close>

definition toggle_updatedAlerts :: "Alert list \<Rightarrow> Alert \<Rightarrow> Alert list" where
  "toggle_updatedAlerts alerts0 alert =
     map (\<lambda>a. if Alert.id' a = Alert.id' alert then a\<lparr>Alert.is_active := \<not> Alert.is_active a\<rparr> else a)
       alerts0"

definition toggleAlertStatus ::
  "Alert list JSON \<Rightarrow> Alert list \<Rightarrow> Alert \<Rightarrow> mutate_io \<Rightarrow> AlertsScreen \<Rightarrow> AlertsScreen" where
  "toggleAlertStatus J alerts0 alert io w =
     (let updatedAlerts = toggle_updatedAlerts alerts0 alert;
          w1 = w\<lparr>alerts := updatedAlerts,
                 storage := cache_set J (optimistic_rejects io) ''alerts'' updatedAlerts (storage w)\<rparr>;
          w2 = w1\<lparr>requests := requests w1 @
                 [Update ''alerts'' (\<not> Alert.is_active alert) (Alert.id' alert)]\<rparr>
      in case answered io of
           None \<Rightarrow> w2
         | Some e \<Rightarrow>
             (let w3 = w2\<lparr>alerts := alerts0,
                          storage := cache_set J (revert_rejects io) ''alerts'' alerts0 (storage w2)\<rparr>
              in w3\<lparr>dialogs := dialogs w3 @
                     [AlertDialog ''Error'' ''Failed to update alert status'' []]\<rparr>))"

definition press_toggle ::
  "Alert list JSON \<Rightarrow> Alert \<Rightarrow> mutate_io \<Rightarrow> AlertsScreen \<Rightarrow> AlertsScreen" where
  "press_toggle J item io w = toggleAlertStatus J (alerts w) item io w"

definition deleteAlert :: "Alert list \<Rightarrow> Alert \<Rightarrow> AlertsScreen \<Rightarrow> AlertsScreen" where
  "deleteAlert alerts0 alert w =
     w\<lparr>dialogs := dialogs w @
         [AlertDialog ''Delete Alert''
            (''Are you sure you want to delete the alert for '' @ Alert.symbol alert @ ''?'')
            [''Cancel'', ''Delete'']],
       confirming := Some (alerts0, alert)\<rparr>"

definition press_trash :: "Alert \<Rightarrow> AlertsScreen \<Rightarrow> AlertsScreen" where
  "press_trash item w = deleteAlert (alerts w) item w"

definition delete_updatedAlerts :: "Alert list \<Rightarrow> Alert \<Rightarrow> Alert list" where
  "delete_updatedAlerts alerts0 alert = filter (\<lambda>a. Alert.id' a \<noteq> Alert.id' alert) alerts0"

text \<open>The \<^verbatim>\<open>onPress\<close> of the dialog's Delete button.\<close>

definition deleteAlert_onPress ::
  "Alert list JSON \<Rightarrow> User option \<Rightarrow> Alert list \<Rightarrow> Alert \<Rightarrow> delete_io \<Rightarrow> AlertsScreen
     \<Rightarrow> AlertsScreen" where
  "deleteAlert_onPress J user alerts0 alert io w =
     (let updatedAlerts = delete_updatedAlerts alerts0 alert;
          w1 = w\<lparr>alerts := updatedAlerts,
                 storage := cache_set J (optimistic_rejects io) ''alerts'' updatedAlerts (storage w)\<rparr>;
          w2 = w1\<lparr>requests := requests w1 @ [Delete ''alerts'' (Alert.id' alert)]\<rparr>
      in case answered io of
           None \<Rightarrow> fetchAlerts J user (refetch io) True w2
         | Some e \<Rightarrow>
             (let w3 = w2\<lparr>alerts := alerts0,
                          storage := cache_set J (revert_rejects io) ''alerts'' alerts0 (storage w2)\<rparr>
              in w3\<lparr>dialogs := dialogs w3 @ [AlertDialog ''Error'' ''Failed to delete alert'' []]\<rparr>))"

definition press_Delete ::
  "Alert list JSON \<Rightarrow> User option \<Rightarrow> delete_io \<Rightarrow> AlertsScreen \<Rightarrow> AlertsScreen" where
  "press_Delete J user io w =
     (case confirming w of
        None \<Rightarrow> w
      | Some (alerts0, alert) \<Rightarrow> deleteAlert_onPress J user alerts0 alert io (w\<lparr>confirming := None\<rparr>))"

definition press_Cancel :: "AlertsScreen \<Rightarrow> AlertsScreen" where
  "press_Cancel w = w\<lparr>confirming := None\<rparr>"

section \<open>The audit-trail screen\<close>

text \<open>The component \<^verbatim>\<open>AdminScreen\<close>.\<close>

record AdminScreen = list_screen +
  profile :: "Profile option"
  auditData :: "AuditTrailEntry list"

text \<open>\<^verbatim>\<open>profile?.is_admin\<close>: false without a profile.\<close>

definition profile_is_admin :: "Profile option \<Rightarrow> bool" where
  "profile_is_admin p = (case p of None \<Rightarrow> False | Some pr \<Rightarrow> is_admin pr)"

definition select_audit_trail :: request where
  "select_audit_trail = Select ''audit_trail'' ''*'' [] (Some (''triggered_at'', False)) (Some 100)"

definition fetchAuditTrail ::
  "AuditTrailEntry list response \<Rightarrow> bool \<Rightarrow> AdminScreen \<Rightarrow> AdminScreen" where
  "fetchAuditTrail resp isRefresh s =
     (let s1 = (if isRefresh then s\<lparr>refreshing := True\<rparr> else s);
          s2 = s1\<lparr>requests := requests s1 @ [select_audit_trail]\<rparr>;
          s3 =
            (case error resp of
               Some e \<Rightarrow>
                 s2\<lparr>dialogs := dialogs s2 @ [AlertDialog ''Error'' ''Failed to load audit trail'' []]\<rparr>
             | None \<Rightarrow>
                 (case data resp of None \<Rightarrow> s2 | Some rows \<Rightarrow> s2\<lparr>auditData := rows\<rparr>))
      in s3\<lparr>loading := False, refreshing := False\<rparr>)"

text \<open>The effect on \<^verbatim>\<open>[profile]\<close>.\<close>

definition useEffect_profile :: "AuditTrailEntry list response \<Rightarrow> AdminScreen \<Rightarrow> AdminScreen" where
  "useEffect_profile resp s =
     (if profile_is_admin (profile s) then fetchAuditTrail resp False s
      else s\<lparr>loading := False\<rparr>)"

definition admin_onRefresh :: "AuditTrailEntry list response \<Rightarrow> AdminScreen \<Rightarrow> AdminScreen" where
  "admin_onRefresh resp s = fetchAuditTrail resp True s"

text \<open>What the component returns: one of its three views.\<close>

datatype admin_view =
    AccessDenied
  | LoadingAuditTrail
  | AuditList "AuditTrailEntry list" bool

definition render :: "AdminScreen \<Rightarrow> admin_view" where
  "render s =
     (if \<not> profile_is_admin (profile s) then AccessDenied
      else if loading s then LoadingAuditTrail
      else AuditList (auditData s) (refreshing s))"

text \<open>
  What can happen to the mounted screen: the effect runs (at mount, and again when the
  store's profile changes), or the user pulls the list to refresh. The refresh control
  belongs to the list view; in the other views there is nothing to pull.
\<close>

datatype admin_event =
    Mount
  | ProfileChanged "Profile option"
  | PullToRefresh

fun admin_step :: "admin_event \<times> AuditTrailEntry list response \<Rightarrow> AdminScreen \<Rightarrow> AdminScreen" where
  "admin_step (Mount, resp) s = useEffect_profile resp s"
| "admin_step (ProfileChanged p, resp) s = useEffect_profile resp (s\<lparr>profile := p\<rparr>)"
| "admin_step (PullToRefresh, resp) s =
     (case render s of AuditList entries r \<Rightarrow> admin_onRefresh resp s | _ \<Rightarrow> s)"

fun admin_run :: "(admin_event \<times> AuditTrailEntry list response) list \<Rightarrow> AdminScreen \<Rightarrow> AdminScreen" where
  "admin_run [] s = s"
| "admin_run (e # es) s = admin_run es (admin_step e s)"

text \<open>The events that put an administrator's profile into the store.\<close>

fun makes_admin :: "admin_event \<Rightarrow> bool" where
  "makes_admin (ProfileChanged p) = profile_is_admin p"
| "makes_admin e = False"

section \<open>The create-alert form (components/alerts/CreateAlertModal.tsx)\<close>

datatype AlertType = threshold | cross

datatype SignalType = price | rsi

datatype AssetType = crypto | stock | forex

text \<open>The strings that the values of the unions are at run time.\<close>

fun SignalType_text :: "SignalType \<Rightarrow> string" where
  "SignalType_text price = ''price''"
| "SignalType_text rsi = ''rsi''"

fun AssetType_text :: "AssetType \<Rightarrow> string" where
  "AssetType_text crypto = ''crypto''"
| "AssetType_text stock = ''stock''"
| "AssetType_text forex = ''forex''"

text \<open>
  The form's state, with the number of times the parent's callbacks \<^verbatim>\<open>onSuccess\<close> and
  \<^verbatim>\<open>onClose\<close> were called.
\<close>

record CreateAlertModal = screen +
  assetType :: AssetType
  symbol :: string
  alertType :: AlertType
  signalType :: SignalType
  operator :: string
  conditionValue :: string
  timeframe :: string
  notificationEmail :: bool
  notificationTelegram :: bool
  onSuccess_calls :: nat
  onClose_calls :: nat

definition getOperators :: "CreateAlertModal \<Rightarrow> (string \<times> string) list" where
  "getOperators m =
     (if alertType m = cross
      then [(''cross_above'', ''Crosses Above''), (''cross_below'', ''Crosses Below'')]
      else [(''above'', ''Is Above''), (''below'', ''Is Below'')])"

definition getConditionType :: "CreateAlertModal \<Rightarrow> string" where
  "getConditionType m =
     (if alertType m = cross
      then (let op = replace ''cross_'' [] (operator m)
            in SignalType_text (signalType m) @ ''_cross_'' @ op)
      else SignalType_text (signalType m) @ ''_'' @ operator m)"

text \<open>
  \<open>validateForm\<close> runs its checks in order; the first one that fails shows its dialog
  and returns \<^verbatim>\<open>false\<close>. \<open>validation_error\<close> is the message of that dialog, and
  \<open>validateForm\<close> returns the verdict with the state after the dialog, if any.
\<close>

definition validation_error :: "runtime \<Rightarrow> CreateAlertModal \<Rightarrow> string option" where
  "validation_error R m =
     (if trim R (CreateAlertModal.symbol m) = [] then Some ''Please enter a symbol''
      else if trim R (conditionValue m) = [] then Some ''Please enter a threshold value''
      else
        (let v = parseFloat R (conditionValue m) in
         if isNaN v then Some ''Please enter a valid number''
         else if signalType m = rsi then
           (if lt v (Finite 0) \<or> gt v (Finite 100) then Some ''RSI must be between 0 and 100''
            else None)
         else
           (if le v (Finite 0) then Some ''Price must be greater than 0'' else None)))"

definition show_error :: "string \<Rightarrow> CreateAlertModal \<Rightarrow> CreateAlertModal" where
  "show_error msg m = m\<lparr>dialogs := dialogs m @ [AlertDialog ''Error'' msg []]\<rparr>"

definition validateForm :: "runtime \<Rightarrow> CreateAlertModal \<Rightarrow> bool \<times> CreateAlertModal" where
  "validateForm R m =
     (case validation_error R m of
        Some msg \<Rightarrow> (False, show_error msg m)
      | None \<Rightarrow> (True, m))"

definition generateTitle :: "runtime \<Rightarrow> CreateAlertModal \<Rightarrow> string" where
  "generateTitle R m =
     (let symbolName = trim R (toUpperCase R (CreateAlertModal.symbol m));
          conditionType = getConditionType m;
          v = conditionValue m;
          typeMap =
            [(''price_above'', symbolName @ '' price above $'' @ v),
             (''price_below'', symbolName @ '' price below $'' @ v),
             (''price_cross_above'', symbolName @ '' price crosses above $'' @ v),
             (''price_cross_below'', symbolName @ '' price crosses below $'' @ v),
             (''rsi_above'', symbolName @ '' RSI above '' @ v),
             (''rsi_below'', symbolName @ '' RSI below '' @ v),
             (''rsi_cross_above'', symbolName @ '' RSI crosses above '' @ v),
             (''rsi_cross_below'', symbolName @ '' RSI crosses below '' @ v)]
      in case map_of typeMap conditionType of
           None \<Rightarrow> symbolName @ '' Alert''
         | Some t \<Rightarrow> if t \<noteq> [] then t else symbolName @ '' Alert'')"

definition resetForm :: "CreateAlertModal \<Rightarrow> CreateAlertModal" where
  "resetForm m =
     m\<lparr>CreateAlertModal.symbol := [], conditionValue := [], alertType := threshold,
       signalType := price, operator := ''above'', timeframe := ''15m'',
       notificationEmail := True, notificationTelegram := False\<rparr>"

definition handleClose :: "CreateAlertModal \<Rightarrow> CreateAlertModal" where
  "handleClose m = (let m1 = resetForm m in m1\<lparr>onClose_calls := onClose_calls m1 + 1\<rparr>)"

text \<open>The object literal passed to \<^verbatim>\<open>insert\<close>.\<close>

definition new_alert :: "runtime \<Rightarrow> User option \<Rightarrow> CreateAlertModal \<Rightarrow> NewAlert" where
  "new_alert R user m =
     \<lparr> NewAlert.user_id = map_option User.id' user,
       NewAlert.title = generateTitle R m,
       NewAlert.asset_type = AssetType_text (assetType m),
       NewAlert.symbol = trim R (toUpperCase R (CreateAlertModal.symbol m)),
       NewAlert.condition_type = getConditionType m,
       NewAlert.condition_value = parseFloat R (conditionValue m),
       NewAlert.notification_email = notificationEmail m,
       NewAlert.notification_telegram = notificationTelegram m,
       NewAlert.is_active = True,
       NewAlert.metadata = timeframe m \<rparr>"

text \<open>\<^verbatim>\<open>error.message || 'Failed to create alert'\<close>.\<close>

fun message :: "exn \<Rightarrow> string" where
  "message (BackendFailure msg) = msg"
| "message e = []"

definition handleSubmit ::
  "runtime \<Rightarrow> User option \<Rightarrow> exn option \<Rightarrow> CreateAlertModal \<Rightarrow> CreateAlertModal" where
  "handleSubmit R user answer m =
     (case validateForm R m of
        (False, m0) \<Rightarrow> m0
      | (True, m0) \<Rightarrow>
          (let m1 = m0\<lparr>loading := True\<rparr>;
               m2 = m1\<lparr>requests := requests m1 @ [Insert ''alerts'' (new_alert R user m1)]\<rparr>;
               m3 =
                 (case answer of
                    Some e \<Rightarrow>
                      m2\<lparr>dialogs := dialogs m2 @
                          [AlertDialog ''Error''
                             (if message e \<noteq> [] then message e else ''Failed to create alert'') []]\<rparr>
                  | None \<Rightarrow>
                      (let m4 = m2\<lparr>dialogs := dialogs m2 @
                                    [AlertDialog ''Success'' ''Alert created successfully!'' []]\<rparr>;
                           m5 = resetForm m4;
                           m6 = m5\<lparr>onSuccess_calls := onSuccess_calls m5 + 1\<rparr>
                       in m6\<lparr>onClose_calls := onClose_calls m6 + 1\<rparr>))
           in m3\<lparr>loading := False\<rparr>))"

text \<open>
  What the user can do on the form. The behaviour buttons set the operator together
  with the alert type; the condition buttons are those of \<open>getOperators\<close> for the
  current alert type, addressed by position; the timeframe buttons are the four listed.
\<close>

datatype form_event =
    SetAssetType AssetType
  | ChangeSymbol string
  | PressThreshold
  | PressCross
  | SetSignalType SignalType
  | PressOperator nat
  | ChangeConditionValue string
  | PressTimeframe nat
  | ToggleEmail
  | ToggleTelegram
  | Cancel
  | Create "exn option"

definition timeframes :: "string list" where
  "timeframes = [''1m'', ''15m'', ''1h'', ''1d'']"

fun form_step :: "runtime \<Rightarrow> User option \<Rightarrow> form_event \<Rightarrow> CreateAlertModal \<Rightarrow> CreateAlertModal" where
  "form_step R user (SetAssetType a) m = m\<lparr>assetType := a\<rparr>"
| "form_step R user (ChangeSymbol t) m = m\<lparr>CreateAlertModal.symbol := toUpperCase R t\<rparr>"
| "form_step R user PressThreshold m = m\<lparr>alertType := threshold, operator := ''above''\<rparr>"
| "form_step R user PressCross m = m\<lparr>alertType := cross, operator := ''cross_above''\<rparr>"
| "form_step R user (SetSignalType g) m = m\<lparr>signalType := g\<rparr>"
| "form_step R user (PressOperator i) m =
     (if i < length (getOperators m) then m\<lparr>operator := fst (getOperators m ! i)\<rparr> else m)"
| "form_step R user (ChangeConditionValue t) m = m\<lparr>conditionValue := t\<rparr>"
| "form_step R user (PressTimeframe i) m =
     (if i < length timeframes then m\<lparr>timeframe := timeframes ! i\<rparr> else m)"
| "form_step R user ToggleEmail m = m\<lparr>notificationEmail := \<not> notificationEmail m\<rparr>"
| "form_step R user ToggleTelegram m = m\<lparr>notificationTelegram := \<not> notificationTelegram m\<rparr>"
| "form_step R user Cancel m = handleClose m"
| "form_step R user (Create answer) m = handleSubmit R user answer m"

fun form_run :: "runtime \<Rightarrow> User option \<Rightarrow> form_event list \<Rightarrow> CreateAlertModal \<Rightarrow> CreateAlertModal" where
  "form_run R user [] m = m"
| "form_run R user (e # es) m = form_run R user es (form_step R user e m)"

text \<open>The state of a freshly mounted form: the initial values of its \<^verbatim>\<open>useState\<close> calls.\<close>

definition initial_form :: CreateAlertModal where
  "initial_form =
     \<lparr> dialogs = [], requests = [], loading = False,
       assetType = crypto, symbol = [], alertType = threshold, signalType = price,
       operator = ''above'', conditionValue = [], timeframe = ''15m'',
       notificationEmail = True, notificationTelegram = False,
       onSuccess_calls = 0, onClose_calls = 0 \<rparr>"

text \<open>
  The alert type and the operator agree: a threshold form holds a threshold operator
  and a cross form a cross operator.
\<close>

definition consistent :: "CreateAlertModal \<Rightarrow> bool" where
  "consistent m =
     ((alertType m, operator m) \<in>
        {(threshold, ''above''), (threshold, ''below''),
         (cross, ''cross_above''), (cross, ''cross_below'')})"

section \<open>Example data\<close>

text \<open>
  Concrete values on which the definitions are evaluated: \<open>JSON\<close> on the booleans, two
  alert rows, \<open>JSON\<close> on some lists of them (the texts are abbreviated), a runtime
  whose \<open>parseFloat\<close> knows a few texts, and the state of a freshly mounted alerts
  screen on a device with an empty store.
\<close>

definition JSON_bool :: "bool JSON" where
  "JSON_bool = JSON_of_table [(''true'', Some True), (''false'', Some False), (''null'', None)]"

definition example_alert :: "string \<Rightarrow> string \<Rightarrow> bool \<Rightarrow> Alert" where
  "example_alert i ticker active =
     \<lparr> Alert.id' = i, Alert.user_id = ''u1'', Alert.title = ticker @ '' price above $100'',
       Alert.asset_type = ''crypto'', Alert.symbol = ticker, Alert.condition_type = ''price_above'',
       Alert.condition_value = Finite 100, Alert.notification_email = True,
       Alert.notification_telegram = False, Alert.is_active = active,
       Alert.triggered_at = None, Alert.metadata = ''15m'',
       Alert.created_at = ''2024-05-01T10:00:00Z'', Alert.updated_at = ''2024-05-01T10:00:00Z'' \<rparr>"

definition JSON_alerts :: "Alert list JSON" where
  "JSON_alerts =
     JSON_of_table
       [(''[]'', Some []),
        (''null'', None),
        (''[{id:a1,is_active:true}]'', Some [example_alert ''a1'' ''BTC'' True]),
        (''[{id:a1,is_active:false}]'', Some [example_alert ''a1'' ''BTC'' False]),
        (''[{id:a2,is_active:true}]'', Some [example_alert ''a2'' ''ETH'' True]),
        (''[{id:a1,is_active:true},{id:a2,is_active:true}]'',
           Some [example_alert ''a1'' ''BTC'' True, example_alert ''a2'' ''ETH'' True])]"

definition example_runtime :: runtime where
  "example_runtime =
     ascii_runtime [(''70'', Finite 70), (''50000'', Finite 50000), (''150'', Finite 150),
       (''0'', Finite 0), (''-5'', Finite (-5)), (''Infinity'', PosInfinity)]"

definition initial_screen :: AlertsScreen where
  "initial_screen =
     \<lparr> dialogs = [], requests = [], loading = True, refreshing = False,
       alerts = [], storage = Map.empty, modalVisible = False, channels = [],
       confirming = None \<rparr>"

definition initial_admin :: "Profile option \<Rightarrow> AdminScreen" where
  "initial_admin p =
     \<lparr> dialogs = [], requests = [], loading = True, refreshing = False,
       profile = p, auditData = [] \<rparr>"

definition example_profile :: "bool \<Rightarrow> Profile" where
  "example_profile admin =
     \<lparr> Profile.id' = ''u1'', email = ''u1@example.com'', full_name = None, is_admin = admin,
       email_notifications = True, telegram_notifications = False, telegram_chat_id = None,
       push_token = None, Profile.created_at = ''2024-05-01T10:00:00Z'' \<rparr>"

definition example_user :: User where
  "example_user = \<lparr> User.id' = ''u1'' \<rparr>"

text \<open>
  Answers of the environment to \<open>fetchAlerts\<close>: the backend returns one row and the
  cache write succeeds; the same with the cache write rejected; the backend fails.
\<close>

definition io_rows :: fetch_io where
  "io_rows =
     \<lparr> getItem_rejects = False,
       fetched = Response (Some [example_alert ''a1'' ''BTC'' True]) None,
       setItem_rejects = False \<rparr>"

definition io_rows_unsaved :: fetch_io where
  "io_rows_unsaved = io_rows\<lparr>setItem_rejects := True\<rparr>"

definition io_offline :: fetch_io where
  "io_offline =
     \<lparr> getItem_rejects = False,
       fetched = Response None (Some (BackendFailure ''Network request failed'')),
       setItem_rejects = False \<rparr>"

text \<open>
  A freshly mounted screen on a device whose cache holds one alert, and a screen that
  shows that alert.
\<close>

definition cached_screen :: AlertsScreen where
  "cached_screen = initial_screen\<lparr>storage := [''alerts'' \<mapsto> ''[{id:a1,is_active:true}]'']\<rparr>"

definition shown_screen :: AlertsScreen where
  "shown_screen = cached_screen\<lparr>alerts := [example_alert ''a1'' ''BTC'' True], loading := False\<rparr>"

text \<open>
  Answers of the environment to a toggle or a delete that the backend refuses: with
  both cache writes accepted, and with the reverting write rejected.
\<close>

definition io_refused :: mutate_io where
  "io_refused =
     \<lparr> optimistic_rejects = False,
       answered = Some (BackendFailure ''Network request failed''),
       revert_rejects = False \<rparr>"

definition io_refused_unsaved :: mutate_io where
  "io_refused_unsaved = io_refused\<lparr>revert_rejects := True\<rparr>"

definition dio_refused :: delete_io where
  "dio_refused =
     \<lparr> optimistic_rejects = False,
       answered = Some (BackendFailure ''Network request failed''),
       revert_rejects = False,
       refetch = io_rows \<rparr>"

text \<open>
  The run on which the rollback of a refused delete restores a list that the store no
  longer held: the trash button is pressed on the screen that shows one alert, a
  realtime event arrives and the refetch returns two alerts, and then Delete is pressed.
\<close>

definition io_two_rows :: fetch_io where
  "io_two_rows =
     \<lparr> getItem_rejects = False,
       fetched = Response
         (Some [example_alert ''a1'' ''BTC'' True, example_alert ''a2'' ''ETH'' True]) None,
       setItem_rejects = False \<rparr>"

definition confirming_screen :: AlertsScreen where
  "confirming_screen = press_trash (example_alert ''a1'' ''BTC'' True) shown_screen"

definition refetched_screen :: AlertsScreen where
  "refetched_screen =
     on_postgres_changes JSON_alerts (Some example_user) io_two_rows INSERT confirming_screen"

text \<open>A form filled in for an RSI threshold that is out of range.\<close>

definition rsi_150_form :: CreateAlertModal where
  "rsi_150_form =
     form_run example_runtime (Some example_user)
       [ChangeSymbol ''btc'', SetSignalType rsi, ChangeConditionValue ''150''] initial_form"

text \<open>A form filled in for a price cross alert.\<close>

definition price_cross_form :: CreateAlertModal where
  "price_cross_form =
     form_run example_runtime (Some example_user)
       [PressCross, ChangeSymbol '' btc'', ChangeConditionValue ''50000''] initial_form"

section \<open>Properties of the cache helper\<close>

lemma cache_call_untouched:
  "\<not> touches key (snd c) \<Longrightarrow> cache_call J c st key = st key"
  by (cases c; cases "snd c")
     (auto simp: cache_set_def cache_remove_def setItem_def removeItem_def
           split: sum.splits)

lemma cache_calls_untouched:
  "\<forall>c\<in>set cs. \<not> touches key (snd c) \<Longrightarrow> cache_calls J cs st key = st key"
  by (induction cs arbitrary: st) (simp_all add: cache_call_untouched)

lemma cache_call_unset:
  "\<not> sets key (snd c) \<Longrightarrow> st key = None \<Longrightarrow> cache_call J c st key = None"
  by (cases c; cases "snd c")
     (auto simp: cache_set_def cache_remove_def cache_clear_def setItem_def removeItem_def
                 clear_def
           split: sum.splits)

lemma cache_calls_unset:
  "\<forall>c\<in>set cs. \<not> sets key (snd c) \<Longrightarrow> st key = None \<Longrightarrow> cache_calls J cs st key = None"
  by (induction cs arbitrary: st) (simp_all add: cache_call_unset)

lemma cache_get_item:
  "cache_get J False key st =
     (case st key of
        None \<Rightarrow> None
      | Some s \<Rightarrow> if s \<noteq> [] then (case parse J s of Inl e \<Rightarrow> None | Inr r \<Rightarrow> r) else None)"
  by (simp add: cache_get_def getItem_def split: option.splits)

lemma cache_set_cases:
  "cache_set J rejects key v st =
     (case stringify J v of
        Inl e \<Rightarrow> st
      | Inr s \<Rightarrow> if rejects then st else st(key \<mapsto> s))"
  by (simp add: cache_set_def setItem_def split: sum.splits)

text \<open>
  C8. For every key and every JSON-serializable value, \<open>cache.get(key)\<close> after
  \<open>cache.set(key, value)\<close> returns the JSON round-trip of the value, when no storage
  call of the two is rejected and the calls made in between do not set, remove or clear
  that key (calls on other keys may be made, and may fail). \<open>cache.get\<close> of a key that
  has no item in the store and is never set returns \<^verbatim>\<open>null\<close>, whatever else is called.
\<close>

theorem cache_get_after_set:
  "(JSON_serializable J v \<and> (\<forall>c\<in>set cs. \<not> touches key (snd c)) \<longrightarrow>
      cache_get J False key (cache_calls J cs (cache_set J False key v st)) = JSON_roundtrip J v)
   \<and> (st key = None \<and> (\<forall>c\<in>set cs. \<not> sets key (snd c)) \<longrightarrow>
      cache_get J rejects key (cache_calls J cs st) = None)"
proof (intro conjI impI)
  assume a: "JSON_serializable J v \<and> (\<forall>c\<in>set cs. \<not> touches key (snd c))"
  then obtain s where s: "stringify J v = Inr s" "s \<noteq> []"
    by (auto simp: JSON_serializable_def split: sum.splits)
  have "cache_calls J cs (cache_set J False key v st) key = Some s"
    using a s by (simp add: cache_calls_untouched cache_set_cases)
  then show "cache_get J False key (cache_calls J cs (cache_set J False key v st))
      = JSON_roundtrip J v"
    using s by (simp add: cache_get_item JSON_roundtrip_def)
next
  assume "st key = None \<and> (\<forall>c\<in>set cs. \<not> sets key (snd c))"
  then have "cache_calls J cs st key = None"
    by (simp add: cache_calls_unset)
  then show "cache_get J rejects key (cache_calls J cs st) = None"
    by (simp add: cache_get_def getItem_def)
qed

theorem cache_get_after_set_witness:
  "cache_get JSON_bool False ''theme''
     (cache_calls JSON_bool
        [(False, Set ''alerts'' False), (False, Get ''theme''), (True, Remove ''alerts'')]
        (cache_set JSON_bool False ''theme'' True Map.empty)) = Some True
   \<and> cache_get JSON_bool False ''theme''
       (cache_calls JSON_bool [(False, Set ''alerts'' False), (False, Clear)] Map.empty) = None"
  using
    cache_get_after_set [of JSON_bool True
      "[(False, Set ''alerts'' False), (False, Get ''theme''), (True, Remove ''alerts'')]"
      "''theme''" Map.empty False]
    cache_get_after_set [of JSON_bool True "[(False, Set ''alerts'' False), (False, Clear)]"
      "''theme''" Map.empty False]
  by (simp add: JSON_bool_def JSON_of_table_def JSON_serializable_def JSON_roundtrip_def)

text \<open>
  C9. No cache operation propagates an exception: each returns a plain value, and when
  the storage call is rejected or the JSON conversion throws, \<open>cache.set\<close>,
  \<open>cache.remove\<close> and \<open>cache.clear\<close> leave the store as it was and \<open>cache.get\<close> returns
  \<^verbatim>\<open>null\<close>.
\<close>

theorem cache_swallows_failures:
  "(rejects \<or> (\<exists>e. stringify J v = Inl e) \<longrightarrow> cache_set J rejects key v st = st)
   \<and> (rejects \<longrightarrow> cache_remove rejects key st = st)
   \<and> (rejects \<longrightarrow> cache_clear rejects st = st)
   \<and> (rejects \<or> (\<exists>s e. st key = Some s \<and> parse J s = Inl e) \<longrightarrow>
        cache_get J rejects key st = None)"
  by (auto simp: cache_set_def cache_remove_def cache_clear_def cache_get_def
                 setItem_def removeItem_def clear_def getItem_def
           split: sum.splits option.splits)

theorem cache_swallows_failures_witness:
  "cache_set JSON_bool True ''theme'' True [''theme'' \<mapsto> ''false''] = [''theme'' \<mapsto> ''false'']
   \<and> cache_remove True ''theme'' [''theme'' \<mapsto> ''false''] = [''theme'' \<mapsto> ''false'']
   \<and> cache_clear True [''theme'' \<mapsto> ''false''] = [''theme'' \<mapsto> ''false'']
   \<and> cache_get JSON_bool True ''theme'' [''theme'' \<mapsto> ''false''] = None
   \<and> cache_get JSON_bool False ''theme'' [''theme'' \<mapsto> ''{fal''] = None"
  using
    cache_swallows_failures [of True JSON_bool True "''theme''" "[''theme'' \<mapsto> ''false'']"]
    cache_swallows_failures [of False JSON_bool True "''theme''" "[''theme'' \<mapsto> ''{fal'']"]
  by (simp add: JSON_bool_def JSON_of_table_def)

section \<open>Properties of the alerts screen\<close>

text \<open>
  C2. The optimistic update of \<open>toggleAlertStatus\<close> keeps the length and the order of the
  list; at every position the entry whose id is the toggled alert's id has its
  \<open>is_active\<close> negated and nothing else changed, and every other entry is unchanged. When
  the backend accepts the update, that list is the store's list afterwards.
\<close>

theorem toggle_frame:
  "length (toggle_updatedAlerts alerts0 alert) = length alerts0
   \<and> (\<forall>i<length alerts0.
        toggle_updatedAlerts alerts0 alert ! i =
          (if Alert.id' (alerts0 ! i) = Alert.id' alert
           then (alerts0 ! i)\<lparr>Alert.is_active := \<not> Alert.is_active (alerts0 ! i)\<rparr>
           else alerts0 ! i))
   \<and> (answered io = None \<longrightarrow>
        alerts (toggleAlertStatus J alerts0 alert io w) = toggle_updatedAlerts alerts0 alert)"
  by (simp add: toggle_updatedAlerts_def toggleAlertStatus_def Let_def)

theorem toggle_frame_witness:
  "length (toggle_updatedAlerts
             [example_alert ''a1'' ''BTC'' True, example_alert ''a2'' ''ETH'' True]
             (example_alert ''a2'' ''ETH'' True)) = 2
   \<and> toggle_updatedAlerts
        [example_alert ''a1'' ''BTC'' True, example_alert ''a2'' ''ETH'' True]
        (example_alert ''a2'' ''ETH'' True) ! 0 = example_alert ''a1'' ''BTC'' True
   \<and> toggle_updatedAlerts
        [example_alert ''a1'' ''BTC'' True, example_alert ''a2'' ''ETH'' True]
        (example_alert ''a2'' ''ETH'' True) ! 1 = example_alert ''a2'' ''ETH'' False
   \<and> alerts (toggleAlertStatus JSON_alerts
               [example_alert ''a1'' ''BTC'' True, example_alert ''a2'' ''ETH'' True]
               (example_alert ''a2'' ''ETH'' True) (io_refused\<lparr>answered := None\<rparr>) shown_screen)
       = toggle_updatedAlerts
           [example_alert ''a1'' ''BTC'' True, example_alert ''a2'' ''ETH'' True]
           (example_alert ''a2'' ''ETH'' True)"
proof -
  let ?as = "[example_alert ''a1'' ''BTC'' True, example_alert ''a2'' ''ETH'' True]"
  let ?a = "example_alert ''a2'' ''ETH'' True"
  note t = toggle_frame [of ?as ?a "io_refused\<lparr>answered := None\<rparr>" JSON_alerts shown_screen]
  from t have nth: "\<forall>i<length ?as. toggle_updatedAlerts ?as ?a ! i =
      (if Alert.id' (?as ! i) = Alert.id' ?a
       then (?as ! i)\<lparr>Alert.is_active := \<not> Alert.is_active (?as ! i)\<rparr> else ?as ! i)"
    by blast
  have "toggle_updatedAlerts ?as ?a ! 0 = example_alert ''a1'' ''BTC'' True"
    using nth [rule_format, of 0] by (simp add: example_alert_def)
  moreover have "toggle_updatedAlerts ?as ?a ! 1 = example_alert ''a2'' ''ETH'' False"
    using nth [rule_format, of 1] by (simp add: example_alert_def)
  moreover have "length (toggle_updatedAlerts ?as ?a) = 2"
    using t by simp
  moreover have "alerts (toggleAlertStatus JSON_alerts ?as ?a (io_refused\<lparr>answered := None\<rparr>)
      shown_screen) = toggle_updatedAlerts ?as ?a"
    using t by simp
  ultimately show ?thesis by simp
qed

lemma load_from_cache_fields:
  "storage (load_from_cache J io isRefresh w) = storage w"
  "requests (load_from_cache J io isRefresh w) = requests w"
  "dialogs (load_from_cache J io isRefresh w) = dialogs w"
  "channels (load_from_cache J io isRefresh w) = channels w"
  by (simp_all add: load_from_cache_def split: option.splits)

lemma load_from_cache_alerts:
  "alerts (load_from_cache J io isRefresh w) =
     (if isRefresh then alerts w
      else case cache_get J (getItem_rejects io) ''alerts'' (storage w) of
             None \<Rightarrow> alerts w
           | Some [] \<Rightarrow> alerts w
           | Some (c # cs) \<Rightarrow> c # cs)"
  by (simp add: load_from_cache_def split: option.splits list.splits)

lemma fetchAlerts_requests:
  "requests (fetchAlerts J user io isRefresh w) = requests w @ [select_alerts user]"
  by (simp add: fetchAlerts_def Let_def load_from_cache_fields split: option.splits)

lemma fetchAlerts_channels:
  "channels (fetchAlerts J user io isRefresh w) = channels w"
  by (simp add: fetchAlerts_def Let_def load_from_cache_fields split: option.splits)

lemma fetchAlerts_error:
  assumes "error (fetched io) = Some e"
  shows "fetchAlerts J user io isRefresh w =
     (load_from_cache J io isRefresh w)
       \<lparr>requests := requests w @ [select_alerts user],
        dialogs := dialogs w @ [AlertDialog ''Error'' ''Failed to load alerts'' []],
        loading := False, refreshing := False\<rparr>"
  using assms by (simp add: fetchAlerts_def Let_def load_from_cache_fields)

lemma fetchAlerts_rows:
  assumes "fetched io = Response (Some rows) None"
  shows "fetchAlerts J user io isRefresh w =
     (load_from_cache J io isRefresh w)
       \<lparr>requests := requests w @ [select_alerts user],
        alerts := rows,
        storage := cache_set J (setItem_rejects io) ''alerts'' rows (storage w),
        loading := False, refreshing := False\<rparr>"
  using assms by (simp add: fetchAlerts_def Let_def load_from_cache_fields)

lemma example_texts:
  "stringify JSON_alerts [example_alert ''a1'' ''BTC'' True] = Inr ''[{id:a1,is_active:true}]''"
  "stringify JSON_alerts [example_alert ''a1'' ''BTC'' False] = Inr ''[{id:a1,is_active:false}]''"
  "stringify JSON_alerts [] = Inr ''[]''"
  "parse JSON_alerts ''[{id:a1,is_active:true}]'' = Inr (Some [example_alert ''a1'' ''BTC'' True])"
  "parse JSON_alerts ''[{id:a1,is_active:false}]'' = Inr (Some [example_alert ''a1'' ''BTC'' False])"
  by (simp_all add: JSON_alerts_def JSON_of_table_def example_alert_def)

text \<open>
  C3 as stated fails where it says that the rows are written back to the cache: the
  backend returns one row, the storage call of the cache write is rejected, the row is
  displayed, and the cache holds no entry for it.
\<close>

theorem fetchAlerts_unsaved_counterexample:
  "fetched io_rows_unsaved = Response (Some [example_alert ''a1'' ''BTC'' True]) None
   \<and> alerts (fetchAlerts JSON_alerts (Some example_user) io_rows_unsaved False initial_screen)
       = [example_alert ''a1'' ''BTC'' True]
   \<and> storage (fetchAlerts JSON_alerts (Some example_user) io_rows_unsaved False initial_screen)
       ''alerts'' = None"
proof -
  have f: "fetched io_rows_unsaved = Response (Some [example_alert ''a1'' ''BTC'' True]) None"
    by (simp add: io_rows_unsaved_def io_rows_def)
  show ?thesis
    by (simp add: f fetchAlerts_rows [OF f] cache_set_cases example_texts)
       (simp add: io_rows_unsaved_def initial_screen_def)
qed

text \<open>
  C3, amended. \<open>fetchAlerts\<close> with \<open>isRefresh = false\<close> first reads the cached \<open>alerts\<close>
  value and sets it as the displayed list only if it is non-null and non-empty; with
  \<open>isRefresh = true\<close> that step is skipped. It then sends one query for the user's
  alerts ordered by \<open>created_at\<close> descending. When the query returns rows, the displayed
  list is exactly those rows, whatever was displayed or cached before, and the rows are
  handed to \<open>cache.set\<close>: the cache entry becomes their text when the rows serialize and
  the storage call is accepted, and the store is left as it was otherwise.
\<close>

theorem fetchAlerts_cache_then_network:
  "load_from_cache J io True w = w
   \<and> load_from_cache J io False w =
       (case cache_get J (getItem_rejects io) ''alerts'' (storage w) of
          None \<Rightarrow> w
        | Some [] \<Rightarrow> w
        | Some (c # cs) \<Rightarrow> w\<lparr>alerts := c # cs\<rparr>)
   \<and> requests (fetchAlerts J user io isRefresh w) =
       requests w @ [Select ''alerts'' ''*'' [(''user_id'', map_option User.id' user)]
                       (Some (''created_at'', False)) None]
   \<and> (fetched io = Response (Some rows) None \<longrightarrow>
        alerts (fetchAlerts J user io isRefresh w) = rows
        \<and> storage (fetchAlerts J user io isRefresh w) =
            (case stringify J rows of
               Inl e \<Rightarrow> storage w
             | Inr s \<Rightarrow> if setItem_rejects io then storage w else (storage w)(''alerts'' \<mapsto> s)))"
  by (simp add: fetchAlerts_rows cache_set_cases fetchAlerts_requests select_alerts_def
        load_from_cache_def split: option.splits list.splits)

theorem fetchAlerts_cache_then_network_witness:
  "load_from_cache JSON_alerts io_rows True cached_screen = cached_screen
   \<and> load_from_cache JSON_alerts io_rows False cached_screen =
       cached_screen\<lparr>alerts := [example_alert ''a1'' ''BTC'' True]\<rparr>
   \<and> alerts (fetchAlerts JSON_alerts (Some example_user) io_rows False initial_screen)
       = [example_alert ''a1'' ''BTC'' True]
   \<and> storage (fetchAlerts JSON_alerts (Some example_user) io_rows False initial_screen)
       = [''alerts'' \<mapsto> ''[{id:a1,is_active:true}]'']"
proof -
  have f: "fetched io_rows = Response (Some [example_alert ''a1'' ''BTC'' True]) None"
    by (simp add: io_rows_def)
  have g: "cache_get JSON_alerts (getItem_rejects io_rows) ''alerts'' (storage cached_screen)
      = Some [example_alert ''a1'' ''BTC'' True]"
    by (simp add: cache_get_def getItem_def io_rows_def cached_screen_def example_texts)
  show ?thesis
    using
      fetchAlerts_cache_then_network [of JSON_alerts io_rows cached_screen "Some example_user"
        False "[example_alert ''a1'' ''BTC'' True]"]
      fetchAlerts_cache_then_network [of JSON_alerts io_rows initial_screen "Some example_user"
        False "[example_alert ''a1'' ''BTC'' True]"]
    by (simp add: f g example_texts) (simp add: io_rows_def initial_screen_def)
qed

text \<open>
  C4 as stated fails where it says that the alerts state is left unchanged: a freshly
  mounted screen shows no alerts, the cache holds one, the backend query fails, and the
  screen shows the cached alert afterwards.
\<close>

theorem fetchAlerts_failure_counterexample:
  "error (fetched io_offline) = Some (BackendFailure ''Network request failed'')
   \<and> alerts cached_screen = []
   \<and> alerts (fetchAlerts JSON_alerts (Some example_user) io_offline False cached_screen)
       = [example_alert ''a1'' ''BTC'' True]"
proof -
  have e: "error (fetched io_offline) = Some (BackendFailure ''Network request failed'')"
    by (simp add: io_offline_def)
  have g: "cache_get JSON_alerts (getItem_rejects io_offline) ''alerts'' (storage cached_screen)
      = Some [example_alert ''a1'' ''BTC'' True]"
    by (simp add: cache_get_def getItem_def io_offline_def cached_screen_def example_texts)
  show ?thesis
    by (simp add: e fetchAlerts_error [OF e] load_from_cache_alerts g)
       (simp add: cached_screen_def initial_screen_def)
qed

text \<open>
  C4, amended. When the backend query of \<open>fetchAlerts\<close> returns an error, one dialog
  with title \<open>Error\<close> and message \<open>Failed to load alerts\<close> is shown, the query is sent
  once and not retried, the cache is left unchanged, and the loading and refreshing
  flags are false afterwards. The alerts state is left unchanged when \<open>isRefresh\<close> is
  true or the cached list is null or empty; otherwise it is the cached list, which the
  first step of the run has put on display.
\<close>

theorem fetchAlerts_failure:
  "error (fetched io) = Some e \<longrightarrow>
     dialogs (fetchAlerts J user io isRefresh w) =
       dialogs w @ [AlertDialog ''Error'' ''Failed to load alerts'' []]
     \<and> requests (fetchAlerts J user io isRefresh w) = requests w @ [select_alerts user]
     \<and> storage (fetchAlerts J user io isRefresh w) = storage w
     \<and> alerts (fetchAlerts J user io isRefresh w) =
         (if isRefresh then alerts w
          else case cache_get J (getItem_rejects io) ''alerts'' (storage w) of
                 None \<Rightarrow> alerts w
               | Some [] \<Rightarrow> alerts w
               | Some (c # cs) \<Rightarrow> c # cs)
     \<and> \<not> loading (fetchAlerts J user io isRefresh w)
     \<and> \<not> refreshing (fetchAlerts J user io isRefresh w)"
  by (simp add: fetchAlerts_error load_from_cache_fields load_from_cache_alerts)

theorem fetchAlerts_failure_witness:
  "dialogs (fetchAlerts JSON_alerts (Some example_user) io_offline True shown_screen)
     = [AlertDialog ''Error'' ''Failed to load alerts'' []]
   \<and> requests (fetchAlerts JSON_alerts (Some example_user) io_offline True shown_screen)
       = [select_alerts (Some example_user)]
   \<and> storage (fetchAlerts JSON_alerts (Some example_user) io_offline True shown_screen)
       = storage shown_screen
   \<and> alerts (fetchAlerts JSON_alerts (Some example_user) io_offline True shown_screen)
       = alerts shown_screen
   \<and> \<not> loading (fetchAlerts JSON_alerts (Some example_user) io_offline True shown_screen)
   \<and> \<not> refreshing (fetchAlerts JSON_alerts (Some example_user) io_offline True shown_screen)"
proof -
  have e: "error (fetched io_offline) = Some (BackendFailure ''Network request failed'')"
    by (simp add: io_offline_def)
  have d: "dialogs shown_screen = []" "requests shown_screen = []"
    by (simp_all add: shown_screen_def cached_screen_def initial_screen_def)
  show ?thesis
    using fetchAlerts_failure [of io_offline "BackendFailure ''Network request failed''"
        JSON_alerts "Some example_user" True shown_screen]
    by (simp add: e d)
qed

text \<open>
  What the rollback of a refused toggle or delete does. The in-memory list is set back
  to the list the handler closed over, that list is handed to \<open>cache.set\<close> after the
  optimistic write, and an error dialog is shown. For the toggle the list closed over is
  the store's list at the press. For the delete it is the store's list when the
  confirmation was opened.
\<close>

lemma toggle_rollback:
  assumes "answered io = Some e"
  shows "alerts (press_toggle J item io w) = alerts w
    \<and> storage (press_toggle J item io w) =
        cache_set J (revert_rejects io) ''alerts'' (alerts w)
          (cache_set J (optimistic_rejects io) ''alerts''
             (toggle_updatedAlerts (alerts w) item) (storage w))
    \<and> dialogs (press_toggle J item io w) =
        dialogs w @ [AlertDialog ''Error'' ''Failed to update alert status'' []]"
  using assms by (simp add: press_toggle_def toggleAlertStatus_def Let_def)

lemma delete_rollback:
  assumes "confirming w = Some (alerts0, alert)" and "answered io = Some e"
  shows "alerts (press_Delete J user io w) = alerts0
    \<and> storage (press_Delete J user io w) =
        cache_set J (revert_rejects io) ''alerts'' alerts0
          (cache_set J (optimistic_rejects io) ''alerts''
             (delete_updatedAlerts alerts0 alert) (storage w))
    \<and> dialogs (press_Delete J user io w) =
        dialogs w @ [AlertDialog ''Error'' ''Failed to delete alert'' []]"
  using assms by (simp add: press_Delete_def deleteAlert_onPress_def Let_def)

lemma press_trash_confirming:
  "confirming (press_trash item w) = Some (alerts w, item)
   \<and> alerts (press_trash item w) = alerts w \<and> storage (press_trash item w) = storage w"
  by (simp add: press_trash_def deleteAlert_def)

text \<open>
  The cache entry follows the rollback only when the reverting write is accepted:
  \<open>cache.set\<close> swallows a rejected storage call, and the entry then keeps the list of the
  optimistic write.
\<close>

lemma toggle_rollback_unsaved:
  "answered io_refused_unsaved = Some (BackendFailure ''Network request failed'')
   \<and> alerts shown_screen = [example_alert ''a1'' ''BTC'' True]
   \<and> alerts (press_toggle JSON_alerts (example_alert ''a1'' ''BTC'' True) io_refused_unsaved
               shown_screen) = [example_alert ''a1'' ''BTC'' True]
   \<and> cache_get JSON_alerts False ''alerts''
       (storage (press_toggle JSON_alerts (example_alert ''a1'' ''BTC'' True) io_refused_unsaved
                   shown_screen)) = Some [example_alert ''a1'' ''BTC'' False]"
proof -
  have t: "toggle_updatedAlerts [example_alert ''a1'' ''BTC'' True] (example_alert ''a1'' ''BTC'' True)
      = [example_alert ''a1'' ''BTC'' False]"
    by (simp add: toggle_updatedAlerts_def example_alert_def)
  have s: "alerts shown_screen = [example_alert ''a1'' ''BTC'' True]"
    by (simp add: shown_screen_def)
  have io: "answered io_refused_unsaved = Some (BackendFailure ''Network request failed'')"
    "revert_rejects io_refused_unsaved" "\<not> optimistic_rejects io_refused_unsaved"
    by (simp_all add: io_refused_unsaved_def io_refused_def)
  show ?thesis
    by (simp add: press_toggle_def toggleAlertStatus_def Let_def s t io cache_set_cases
          example_texts cache_get_item)
qed

text \<open>
  C1, evaluated on a run where the store changes while the delete confirmation is open.
  The claim is that a refused delete restores the in-memory alerts state to exactly the
  list held before the optimistic change. The screen shows the alert \<open>a1\<close>; the trash
  button is pressed and the confirmation opens; a realtime event arrives and the refetch
  puts \<open>a1\<close> and \<open>a2\<close> into the store and the cache; Delete is pressed and the backend
  refuses the delete. The store held \<open>a1\<close> and \<open>a2\<close> before the optimistic change, and
  the rollback leaves \<open>a1\<close> alone in the store and in the cache: the handler restores the
  list it closed over when the confirmation was opened.
\<close>

theorem delete_rollback_restores_stale_list:
  "alerts refetched_screen = [example_alert ''a1'' ''BTC'' True, example_alert ''a2'' ''ETH'' True]
   \<and> confirming refetched_screen =
       Some ([example_alert ''a1'' ''BTC'' True], example_alert ''a1'' ''BTC'' True)
   \<and> answered dio_refused = Some (BackendFailure ''Network request failed'')
   \<and> alerts (press_Delete JSON_alerts (Some example_user) dio_refused refetched_screen)
       = [example_alert ''a1'' ''BTC'' True]
   \<and> cache_get JSON_alerts False ''alerts''
       (storage (press_Delete JSON_alerts (Some example_user) dio_refused refetched_screen))
       = Some [example_alert ''a1'' ''BTC'' True]
   \<and> dialogs (press_Delete JSON_alerts (Some example_user) dio_refused refetched_screen)
       = dialogs refetched_screen @ [AlertDialog ''Error'' ''Failed to delete alert'' []]"
proof -
  have s: "alerts shown_screen = [example_alert ''a1'' ''BTC'' True]"
    by (simp add: shown_screen_def)
  have f: "fetched io_two_rows =
      Response (Some [example_alert ''a1'' ''BTC'' True, example_alert ''a2'' ''ETH'' True]) None"
    by (simp add: io_two_rows_def)
  have c: "confirming refetched_screen =
      Some ([example_alert ''a1'' ''BTC'' True], example_alert ''a1'' ''BTC'' True)"
    by (simp add: refetched_screen_def on_postgres_changes_def fetchAlerts_rows [OF f]
          load_from_cache_def confirming_screen_def press_trash_confirming s
          split: option.splits)
  have a: "alerts refetched_screen =
      [example_alert ''a1'' ''BTC'' True, example_alert ''a2'' ''ETH'' True]"
    by (simp add: refetched_screen_def on_postgres_changes_def fetchAlerts_rows [OF f])
  have io: "answered dio_refused = Some (BackendFailure ''Network request failed'')"
    "\<not> revert_rejects dio_refused"
    by (simp_all add: dio_refused_def)
  note r = delete_rollback [OF c io(1), of JSON_alerts "Some example_user"]
  have g: "cache_get JSON_alerts False ''alerts''
      (storage (press_Delete JSON_alerts (Some example_user) dio_refused refetched_screen))
      = Some [example_alert ''a1'' ''BTC'' True]"
    using r by (simp add: io cache_set_cases example_texts cache_get_item)
  from a c io(1) r g show ?thesis by simp
qed

lemma deliver_requests:
  "requests (deliver J user evs w) = requests w @ replicate (length evs) (select_alerts user)"
proof (induction evs arbitrary: w)
  case Nil
  then show ?case by simp
next
  case (Cons ev evs)
  obtain payload io where ev: "ev = (payload, io)" by (cases ev)
  show ?case
    by (simp add: ev Cons.IH on_postgres_changes_def fetchAlerts_requests replicate_app_Cons_same)
qed

text \<open>
  C7. For every signed-in user the effect of the alerts screen subscribes to all events
  (\<open>*\<close>) on the table \<open>alerts\<close> with the filter \<open>user_id=eq.\<close> followed by the user's id.
  The callback of the subscription runs \<open>fetchAlerts\<close> for whatever change it is given
  (insert, update or delete), so each event delivered sends one query for the alerts
  list to the backend.
\<close>

theorem realtime_refetch:
  "channels (useEffect_user J (Some u) io w) =
     channels w @ [Subscription ''alerts-changes'' ''*'' ''public'' ''alerts''
                     (''user_id=eq.'' @ User.id' u)]
   \<and> on_postgres_changes J user io payload w = fetchAlerts J user io False w
   \<and> requests (on_postgres_changes J user io payload w) =
       requests w @ [Select ''alerts'' ''*'' [(''user_id'', map_option User.id' user)]
                       (Some (''created_at'', False)) None]
   \<and> requests (deliver J user evs w) =
       requests w @ replicate (length evs) (select_alerts user)"
  by (simp add: useEffect_user_def setupRealtimeSubscription_def fetchAlerts_channels
        on_postgres_changes_def fetchAlerts_requests deliver_requests select_alerts_def)

theorem realtime_refetch_witness:
  "channels (useEffect_user JSON_alerts (Some example_user) io_rows initial_screen) =
     [Subscription ''alerts-changes'' ''*'' ''public'' ''alerts'' ''user_id=eq.u1'']
   \<and> requests (deliver JSON_alerts (Some example_user)
                 [(INSERT, io_rows), (UPDATE, io_offline), (DELETE, io_rows)] initial_screen) =
       [select_alerts (Some example_user), select_alerts (Some example_user),
        select_alerts (Some example_user)]"
proof -
  note r = realtime_refetch [of JSON_alerts example_user io_rows initial_screen "Some example_user"
      INSERT "[(INSERT, io_rows), (UPDATE, io_offline), (DELETE, io_rows)]"]
  from r have "channels (useEffect_user JSON_alerts (Some example_user) io_rows initial_screen) =
      channels initial_screen @
        [Subscription ''alerts-changes'' ''*'' ''public'' ''alerts''
           (''user_id=eq.'' @ User.id' example_user)]"
    by blast
  then have c: "channels (useEffect_user JSON_alerts (Some example_user) io_rows initial_screen) =
      [Subscription ''alerts-changes'' ''*'' ''public'' ''alerts'' ''user_id=eq.u1'']"
    by (simp add: initial_screen_def example_user_def)
  from r have "requests (deliver JSON_alerts (Some example_user)
        [(INSERT, io_rows), (UPDATE, io_offline), (DELETE, io_rows)] initial_screen) =
      requests initial_screen @
        replicate (length [(INSERT, io_rows), (UPDATE, io_offline), (DELETE, io_rows)])
          (select_alerts (Some example_user))"
    by blast
  then have d: "requests (deliver JSON_alerts (Some example_user)
        [(INSERT, io_rows), (UPDATE, io_offline), (DELETE, io_rows)] initial_screen) =
      [select_alerts (Some example_user), select_alerts (Some example_user),
       select_alerts (Some example_user)]"
    by (simp add: initial_screen_def del: deliver.simps)
  from c d show ?thesis by blast
qed

section \<open>Properties of the audit-trail screen\<close>

lemma fetchAuditTrail_fields:
  "requests (fetchAuditTrail resp isRefresh s) = requests s @ [select_audit_trail]"
  "profile (fetchAuditTrail resp isRefresh s) = profile s"
  by (simp_all add: fetchAuditTrail_def Let_def split: option.splits)

lemma admin_step_profile:
  "profile (admin_step (ev, resp) s) = (case ev of ProfileChanged p \<Rightarrow> p | _ \<Rightarrow> profile s)"
  by (cases ev)
     (simp_all add: useEffect_profile_def admin_onRefresh_def fetchAuditTrail_fields
        split: admin_view.splits)

lemma admin_step_requests:
  "requests (admin_step (ev, resp) s) =
     (if (case ev of
            Mount \<Rightarrow> profile_is_admin (profile s)
          | ProfileChanged p \<Rightarrow> profile_is_admin p
          | PullToRefresh \<Rightarrow> profile_is_admin (profile s) \<and> \<not> loading s)
      then requests s @ [select_audit_trail] else requests s)"
  by (cases ev)
     (simp_all add: useEffect_profile_def admin_onRefresh_def fetchAuditTrail_fields render_def
        split: admin_view.splits)

lemma admin_step_not_admin:
  assumes "\<not> profile_is_admin (profile s)" "\<not> makes_admin (fst e)"
  shows "\<not> profile_is_admin (profile (admin_step e s)) \<and> requests (admin_step e s) = requests s"
proof (cases e)
  case (Pair ev resp)
  with assms show ?thesis
    by (cases ev) (simp_all add: admin_step_profile admin_step_requests del: admin_step.simps)
qed

lemma admin_run_not_admin:
  assumes "\<not> profile_is_admin (profile s)" "\<forall>e\<in>set evs. \<not> makes_admin (fst e)"
  shows "\<not> profile_is_admin (profile (admin_run evs s)) \<and> requests (admin_run evs s) = requests s"
  using assms
proof (induction evs arbitrary: s)
  case Nil
  then show ?case by simp
next
  case (Cons e evs)
  have step: "\<not> profile_is_admin (profile (admin_step e s)) \<and> requests (admin_step e s) = requests s"
    using Cons.prems by (intro admin_step_not_admin) simp_all
  have "\<forall>e\<in>set evs. \<not> makes_admin (fst e)" using Cons.prems by simp
  with step Cons.IH [of "admin_step e s"] show ?case by simp
qed

text \<open>
  C5. Whatever happens to the audit-trail screen, it either sends nothing to the backend
  or the profile is an administrator's and it sends the one query on \<open>audit_trail\<close>,
  ordered by \<open>triggered_at\<close> descending and limited to 100 entries. A profile that is
  not an administrator's, or no profile, is shown the Access Denied view; and as long as
  no administrator's profile enters the store, no run of events sends a query and the
  view stays Access Denied.
\<close>

theorem audit_trail_admin_only:
  "(requests (admin_step (ev, resp) s) = requests s
      \<or> profile_is_admin (profile (admin_step (ev, resp) s))
        \<and> requests (admin_step (ev, resp) s) =
            requests s @ [Select ''audit_trail'' ''*'' [] (Some (''triggered_at'', False)) (Some 100)])
   \<and> (\<not> profile_is_admin (profile s) \<longrightarrow> render s = AccessDenied)
   \<and> (\<not> profile_is_admin (profile s) \<and> (\<forall>e\<in>set evs. \<not> makes_admin (fst e)) \<longrightarrow>
        requests (admin_run evs s) = requests s \<and> render (admin_run evs s) = AccessDenied)"
proof (intro conjI impI)
  show "requests (admin_step (ev, resp) s) = requests s
      \<or> profile_is_admin (profile (admin_step (ev, resp) s))
        \<and> requests (admin_step (ev, resp) s) =
            requests s @ [Select ''audit_trail'' ''*'' [] (Some (''triggered_at'', False)) (Some 100)]"
    by (cases ev)
       (simp_all add: admin_step_requests admin_step_profile select_audit_trail_def
          del: admin_step.simps)
next
  assume "\<not> profile_is_admin (profile s)"
  then show "render s = AccessDenied" by (simp add: render_def)
next
  assume a: "\<not> profile_is_admin (profile s) \<and> (\<forall>e\<in>set evs. \<not> makes_admin (fst e))"
  then have "\<not> profile_is_admin (profile (admin_run evs s)) \<and> requests (admin_run evs s) = requests s"
    by (intro admin_run_not_admin) simp_all
  then show "requests (admin_run evs s) = requests s" "render (admin_run evs s) = AccessDenied"
    by (simp_all add: render_def)
qed

theorem audit_trail_admin_only_witness:
  "render (initial_admin (Some (example_profile False))) = AccessDenied
   \<and> requests (admin_run
        [(Mount, Response (Some []) None), (PullToRefresh, Response (Some []) None),
         (ProfileChanged None, Response (Some []) None)]
        (initial_admin (Some (example_profile False)))) = []
   \<and> render (admin_run
        [(Mount, Response (Some []) None), (PullToRefresh, Response (Some []) None),
         (ProfileChanged None, Response (Some []) None)]
        (initial_admin (Some (example_profile False)))) = AccessDenied"
proof -
  let ?s = "initial_admin (Some (example_profile False))"
  let ?evs = "[(Mount, Response (Some []) None), (PullToRefresh, Response (Some []) None),
         (ProfileChanged None, Response (Some []) None)]"
  have h: "\<not> profile_is_admin (profile ?s)" "\<forall>e\<in>set ?evs. \<not> makes_admin (fst e)"
    "requests ?s = []"
    by (simp_all add: initial_admin_def example_profile_def profile_is_admin_def)
  from h audit_trail_admin_only [of Mount "Response (Some []) None" ?s ?evs]
  have "render ?s = AccessDenied"
    and "requests (admin_run ?evs ?s) = requests ?s \<and> render (admin_run ?evs ?s) = AccessDenied"
    by blast+
  with h show ?thesis by simp
qed

section \<open>Properties of the create-alert form\<close>

lemma validateForm_cases:
  obtains (ok) "validateForm R m = (True, m)"
  | (bad) msg where "validateForm R m = (False, show_error msg m)"
  by (cases "validation_error R m") (simp_all add: validateForm_def)

lemma validateForm_verdict: "fst (validateForm R m) \<longleftrightarrow> validation_error R m = None"
  by (cases "validation_error R m") (simp_all add: validateForm_def)

text \<open>
  C10. Validation fails exactly when the symbol is blank after trimming, the threshold
  field is blank after trimming or does not parse to a number, the signal is RSI and the
  value is below 0 or above 100, or the signal is price and the value is at most 0. When
  it fails, the submit sends no insert and leaves the state as it was, except that one
  error dialog is shown.
\<close>

theorem create_alert_validation:
  "(\<not> fst (validateForm R m) \<longleftrightarrow>
      trim R (CreateAlertModal.symbol m) = []
      \<or> trim R (conditionValue m) = []
      \<or> isNaN (parseFloat R (conditionValue m))
      \<or> signalType m = rsi
        \<and> (lt (parseFloat R (conditionValue m)) (Finite 0)
           \<or> gt (parseFloat R (conditionValue m)) (Finite 100))
      \<or> signalType m = price \<and> le (parseFloat R (conditionValue m)) (Finite 0))
   \<and> (\<not> fst (validateForm R m) \<longrightarrow>
        requests (handleSubmit R user answer m) = requests m
        \<and> (\<exists>msg. handleSubmit R user answer m =
              m\<lparr>dialogs := dialogs m @ [AlertDialog ''Error'' msg []]\<rparr>))"
proof (intro conjI impI)
  show "\<not> fst (validateForm R m) \<longleftrightarrow>
      trim R (CreateAlertModal.symbol m) = []
      \<or> trim R (conditionValue m) = []
      \<or> isNaN (parseFloat R (conditionValue m))
      \<or> signalType m = rsi
        \<and> (lt (parseFloat R (conditionValue m)) (Finite 0)
           \<or> gt (parseFloat R (conditionValue m)) (Finite 100))
      \<or> signalType m = price \<and> le (parseFloat R (conditionValue m)) (Finite 0)"
    by (cases "signalType m") (simp_all add: validateForm_verdict validation_error_def Let_def)
next
  assume bad: "\<not> fst (validateForm R m)"
  then obtain msg where "validateForm R m = (False, show_error msg m)"
    by (cases rule: validateForm_cases [of R m]) simp_all
  then have hs: "handleSubmit R user answer m = show_error msg m"
    by (simp add: handleSubmit_def)
  show "requests (handleSubmit R user answer m) = requests m"
    by (simp add: hs show_error_def)
  show "\<exists>msg. handleSubmit R user answer m =
              m\<lparr>dialogs := dialogs m @ [AlertDialog ''Error'' msg []]\<rparr>"
    using hs by (auto simp: show_error_def)
qed

lemma rsi_150_form_fields:
  "CreateAlertModal.symbol rsi_150_form = ''BTC''"
  "conditionValue rsi_150_form = ''150''"
  "signalType rsi_150_form = rsi"
  "requests rsi_150_form = []"
  "dialogs rsi_150_form = []"
  by (simp_all add: rsi_150_form_def initial_form_def example_runtime_def ascii_runtime_def
        ascii_upper_def)

theorem create_alert_validation_witness:
  "\<not> fst (validateForm example_runtime rsi_150_form)
   \<and> requests (handleSubmit example_runtime (Some example_user) None rsi_150_form) = []"
proof -
  have p: "parseFloat example_runtime ''150'' = Finite 150"
    by (simp add: example_runtime_def ascii_runtime_def)
  have bad: "signalType rsi_150_form = rsi
      \<and> (lt (parseFloat example_runtime (conditionValue rsi_150_form)) (Finite 0)
         \<or> gt (parseFloat example_runtime (conditionValue rsi_150_form)) (Finite 100))"
    by (simp add: rsi_150_form_fields p gt_def)
  note t = create_alert_validation [of example_runtime rsi_150_form "Some example_user" None]
  from t bad have v: "\<not> fst (validateForm example_runtime rsi_150_form)"
    by blast
  with t have "requests (handleSubmit example_runtime (Some example_user) None rsi_150_form)
      = requests rsi_150_form"
    by blast
  with v show ?thesis by (simp add: rsi_150_form_fields)
qed

text \<open>
  The alert type and the operator of the form always agree, so the condition type that
  the form computes is one of the eight values of \<open>ConditionType\<close>.
\<close>

lemma getConditionType_ConditionType:
  "consistent m \<Longrightarrow> getConditionType m \<in> ConditionType"
  by (cases "signalType m")
     (auto simp: consistent_def getConditionType_def ConditionType_def)

lemma handleSubmit_consistent: "consistent m \<Longrightarrow> consistent (handleSubmit R user answer m)"
proof (cases rule: validateForm_cases [of R m])
  case ok
  assume "consistent m"
  then show ?thesis
    by (cases answer)
       (simp_all add: ok handleSubmit_def Let_def consistent_def resetForm_def)
next
  case (bad msg)
  assume "consistent m"
  then show ?thesis
    by (simp add: bad handleSubmit_def consistent_def show_error_def)
qed

lemma form_step_consistent: "consistent m \<Longrightarrow> consistent (form_step R user e m)"
proof (cases e)
  case (Create answer)
  assume "consistent m"
  then show ?thesis by (simp add: Create handleSubmit_consistent)
next
  case (PressOperator i)
  assume "consistent m"
  then show ?thesis
    by (cases "alertType m"; cases i)
       (auto simp: PressOperator consistent_def getOperators_def)
next
  case Cancel
  then show ?thesis by (simp add: consistent_def handleClose_def resetForm_def Let_def)
qed (simp_all add: consistent_def)

lemma form_run_consistent: "consistent m \<Longrightarrow> consistent (form_run R user es m)"
  by (induction es arbitrary: m) (simp_all add: form_step_consistent)

lemma initial_form_consistent: "consistent initial_form"
  by (simp add: consistent_def initial_form_def)

lemma new_alert_loading: "new_alert R user (m\<lparr>loading := b\<rparr>) = new_alert R user m"
  by (simp add: new_alert_def generateTitle_def getConditionType_def)

lemma handleSubmit_requests:
  "requests (handleSubmit R user answer m) =
     (if fst (validateForm R m) then requests m @ [Insert ''alerts'' (new_alert R user m)]
      else requests m)"
proof (cases rule: validateForm_cases [of R m])
  case ok
  then show ?thesis
    by (cases answer) (simp_all add: handleSubmit_def Let_def resetForm_def new_alert_loading)
next
  case (bad msg)
  then show ?thesis by (simp add: handleSubmit_def show_error_def)
qed

text \<open>
  C6. From any state that the form can reach, a submit that passes validation sends one
  record. Its condition type is \<open>signalType_operator\<close> for a threshold alert, whose
  operator is \<open>above\<close> or \<open>below\<close>, and \<open>signalType_cross_direction\<close> for a cross alert,
  whose operator is \<open>cross_\<close> followed by the direction \<open>above\<close> or \<open>below\<close>; so it is
  one of the eight values of \<open>ConditionType\<close>, the values that the condition type of an
  \<open>Alert\<close> is declared to take. The symbol is uppercased and trimmed, and \<open>is_active\<close> is
  true.
\<close>

theorem submitted_record:
  assumes "m = form_run R user es initial_form" and "fst (validateForm R m)"
  shows "requests (handleSubmit R user answer m) = requests m @ [Insert ''alerts'' (new_alert R user m)]
    \<and> (alertType m = threshold \<longrightarrow>
         operator m \<in> {''above'', ''below''}
         \<and> NewAlert.condition_type (new_alert R user m) =
             SignalType_text (signalType m) @ ''_'' @ operator m)
    \<and> (alertType m = cross \<longrightarrow>
         operator m \<in> {''cross_above'', ''cross_below''}
         \<and> NewAlert.condition_type (new_alert R user m) =
             SignalType_text (signalType m) @ ''_cross_'' @ drop 6 (operator m))
    \<and> NewAlert.condition_type (new_alert R user m) \<in>
         {''price_above'', ''price_below'', ''price_cross_above'', ''price_cross_below'',
          ''rsi_above'', ''rsi_below'', ''rsi_cross_above'', ''rsi_cross_below''}
    \<and> NewAlert.condition_type (new_alert R user m) \<in> ConditionType
    \<and> NewAlert.symbol (new_alert R user m) = trim R (toUpperCase R (CreateAlertModal.symbol m))
    \<and> NewAlert.is_active (new_alert R user m)"
proof -
  have c: "consistent m"
    using assms(1) initial_form_consistent by (simp add: form_run_consistent)
  then have ct: "getConditionType m \<in> ConditionType"
    by (rule getConditionType_ConditionType)
  have req: "requests (handleSubmit R user answer m) =
      requests m @ [Insert ''alerts'' (new_alert R user m)]"
    using assms(2) by (simp add: handleSubmit_requests)
  have th: "alertType m = threshold \<longrightarrow>
      operator m \<in> {''above'', ''below''}
      \<and> getConditionType m = SignalType_text (signalType m) @ ''_'' @ operator m"
    using c by (auto simp: consistent_def getConditionType_def)
  have cr: "alertType m = cross \<longrightarrow>
      operator m \<in> {''cross_above'', ''cross_below''}
      \<and> getConditionType m = SignalType_text (signalType m) @ ''_cross_'' @ drop 6 (operator m)"
    using c by (auto simp: consistent_def getConditionType_def)
  have n: "NewAlert.condition_type (new_alert R user m) = getConditionType m"
    "NewAlert.symbol (new_alert R user m) = trim R (toUpperCase R (CreateAlertModal.symbol m))"
    "NewAlert.is_active (new_alert R user m)"
    by (simp_all add: new_alert_def)
  from ct have ct8: "getConditionType m \<in>
      {''price_above'', ''price_below'', ''price_cross_above'', ''price_cross_below'',
       ''rsi_above'', ''rsi_below'', ''rsi_cross_above'', ''rsi_cross_below''}"
    by (simp only: ConditionType_def)
  from req th cr ct ct8 show ?thesis
    by (simp only: n simp_thms)
qed

lemma price_cross_form_fields:
  "CreateAlertModal.symbol price_cross_form = '' BTC''"
  "conditionValue price_cross_form = ''50000''"
  "signalType price_cross_form = price"
  "alertType price_cross_form = cross"
  "operator price_cross_form = ''cross_above''"
  "requests price_cross_form = []"
  by (simp_all add: price_cross_form_def initial_form_def example_runtime_def ascii_runtime_def
        ascii_upper_def)

theorem submitted_record_witness:
  "requests (handleSubmit example_runtime (Some example_user) None price_cross_form) =
     [Insert ''alerts'' (new_alert example_runtime (Some example_user) price_cross_form)]
   \<and> NewAlert.condition_type (new_alert example_runtime (Some example_user) price_cross_form)
       = ''price_cross_above''
   \<and> ''price_cross_above'' \<in> ConditionType
   \<and> NewAlert.symbol (new_alert example_runtime (Some example_user) price_cross_form) = ''BTC''
   \<and> NewAlert.is_active (new_alert example_runtime (Some example_user) price_cross_form)"
proof -
  have p: "parseFloat example_runtime ''50000'' = Finite 50000"
    by (simp add: example_runtime_def ascii_runtime_def)
  have t: "trim example_runtime '' BTC'' = ''BTC''" "trim example_runtime ''50000'' = ''50000''"
    "toUpperCase example_runtime '' BTC'' = '' BTC''"
    by (simp_all add: example_runtime_def ascii_runtime_def ascii_trim_def is_space_def
          ascii_upper_def)
  have v: "fst (validateForm example_runtime price_cross_form)"
    by (simp add: validateForm_verdict validation_error_def price_cross_form_fields p t isNaN_def)
  note r = submitted_record [OF price_cross_form_def v, of None]
  from r have "requests (handleSubmit example_runtime (Some example_user) None price_cross_form) =
      requests price_cross_form @
        [Insert ''alerts'' (new_alert example_runtime (Some example_user) price_cross_form)]"
    by blast
  then have req: "requests (handleSubmit example_runtime (Some example_user) None price_cross_form)
      = [Insert ''alerts'' (new_alert example_runtime (Some example_user) price_cross_form)]"
    by (simp add: price_cross_form_fields)
  from r have "NewAlert.condition_type (new_alert example_runtime (Some example_user) price_cross_form)
      = SignalType_text (signalType price_cross_form) @ ''_cross_'' @ drop 6 (operator price_cross_form)"
    by (simp add: price_cross_form_fields)
  then have ct: "NewAlert.condition_type (new_alert example_runtime (Some example_user) price_cross_form)
      = ''price_cross_above''"
    by (simp add: price_cross_form_fields)
  from r have m: "NewAlert.condition_type (new_alert example_runtime (Some example_user) price_cross_form)
      \<in> ConditionType"
    by blast
  from r have sy: "NewAlert.symbol (new_alert example_runtime (Some example_user) price_cross_form)
      = trim example_runtime (toUpperCase example_runtime (CreateAlertModal.symbol price_cross_form))"
    by blast
  from r have ac: "NewAlert.is_active (new_alert example_runtime (Some example_user) price_cross_form)"
    by blast
  from sy have sy': "NewAlert.symbol (new_alert example_runtime (Some example_user) price_cross_form)
      = ''BTC''"
    by (simp add: price_cross_form_fields t)
  from req ct m sy' ac show ?thesis by simp
qed

end
